theory Spec2Isabelle
  imports Main "HOL-Library.Word"
begin

unbundle bit_operations_syntax

section \<open>bplIO: raw keyboard input on a Unix terminal\<close>

text \<open>
  The source is one C++ class, \<^verbatim>\<open>bplIO\<close> (src/bplIO.hpp), with two static members,
  \<^verbatim>\<open>initialized\<close> and \<^verbatim>\<open>term_backup\<close>, and five static functions that call the
  operating system: \<^verbatim>\<open>enableIO\<close>, \<^verbatim>\<open>disableIO\<close>, \<^verbatim>\<open>_kbhit\<close>, \<^verbatim>\<open>_getch\<close> and \<^verbatim>\<open>_flush\<close>.
  The embedding passes one state explicitly: the two statics together with the part of
  the operating system the five functions read and write (what file descriptor 0 is, the
  bytes waiting on it, the buffering mode of the stdio stream, what the terminal has
  echoed, and a record of the library and system calls made so far). Each of the five
  functions is embedded with the system calls it makes as parameters, and then taken at
  the calls of the modelled operating system.
\<close>

subsection \<open>Machine types\<close>

type_synonym byte = "8 word"       \<comment> \<open>\<^verbatim>\<open>char\<close>, \<^verbatim>\<open>cc_t\<close>: one byte\<close>
type_synonym cint = "32 word"      \<comment> \<open>\<^verbatim>\<open>int\<close>: read as a signed value with \<open>sint\<close>\<close>
type_synonym tcflag_t = "32 word"  \<comment> \<open>\<^verbatim>\<open>unsigned int\<close>\<close>
type_synonym speed_t = "32 word"

text \<open>
  \<^verbatim>\<open>struct termios\<close> comes from the platform's \<^verbatim>\<open><termios.h>\<close>; the fields are those of
  Linux/glibc. The code copies the structure as a whole and changes \<^verbatim>\<open>c_lflag\<close> only.
\<close>

record termios =
  c_iflag :: tcflag_t
  c_oflag :: tcflag_t
  c_cflag :: tcflag_t
  c_lflag :: tcflag_t
  c_line :: byte
  c_cc :: "byte list"
  c_ispeed :: speed_t
  c_ospeed :: speed_t

text \<open>Two bits of the local modes, with their Linux values (octal 2 and 10).\<close>

definition ICANON :: tcflag_t where
  "ICANON = 2"

definition ECHO :: tcflag_t where
  "ECHO = 8"

text \<open>
  Four more mode bits, which change a byte on its way in or out (\<^verbatim>\<open>PARMRK\<close>, \<^verbatim>\<open>ISTRIP\<close> and
  \<^verbatim>\<open>IUCLC\<close> of the input modes, \<^verbatim>\<open>OLCUC\<close> of the output modes), and the places of \<^verbatim>\<open>VTIME\<close>
  and \<^verbatim>\<open>VMIN\<close> among the control characters, all with their Linux values.
\<close>

definition PARMRK :: tcflag_t where
  "PARMRK = 0x8"

definition ISTRIP :: tcflag_t where
  "ISTRIP = 0x20"

definition IUCLC :: tcflag_t where
  "IUCLC = 0x200"

definition OLCUC :: tcflag_t where
  "OLCUC = 0x2"

definition VTIME :: nat where
  "VTIME = 5"

definition VMIN :: nat where
  "VMIN = 6"

definition cc :: "termios \<Rightarrow> nat \<Rightarrow> byte" where
  "cc t i = (if i < length (c_cc t) then c_cc t ! i else 0)"

text \<open>
  In canonical mode, and in non-canonical mode with \<^verbatim>\<open>MIN > 0\<close>, a read on a terminal with
  nothing to deliver waits. In non-canonical mode with \<^verbatim>\<open>MIN = 0\<close> it returns 0, at once or
  when the \<^verbatim>\<open>TIME\<close> timer runs out.
\<close>

definition read_waits :: "termios \<Rightarrow> bool" where
  "read_waits t = (c_lflag t AND ICANON \<noteq> 0 \<or> cc t VMIN \<noteq> 0)"

text \<open>
  \<^verbatim>\<open>termios bplIO::term_backup;\<close> has static storage duration and no initialiser: it is
  zero-initialised (\<^verbatim>\<open>NCCS\<close> is 32).
\<close>

definition zero_termios :: termios where
  "zero_termios = \<lparr>c_iflag = 0, c_oflag = 0, c_cflag = 0, c_lflag = 0, c_line = 0,
     c_cc = replicate 32 0, c_ispeed = 0, c_ospeed = 0\<rparr>"

subsection \<open>The state\<close>

text \<open>
  What file descriptor 0 refers to: nothing (\<open>Closed\<close>); a character device that is no
  terminal and cannot count its bytes, such as \<^verbatim>\<open>/dev/null\<close> (\<open>Device\<close>); a pipe or a regular
  file (\<open>Stream\<close>); a terminal that has hung up (\<open>HungUp\<close>); or a terminal, with its
  current attribute set, of which the process is in the foreground.
\<close>

datatype descriptor = Closed | Device | Stream | HungUp | Terminal termios

datatype buffering = FullyBuffered | LineBuffered | Unbuffered

datatype call = Tcgetattr | Tcsetattr | Setbuf | Setlinebuf | Ioctl_FIONREAD | Ioctl_TCFLSH | Read

record state =
  initialized :: bool              \<comment> \<open>\<^verbatim>\<open>bplIO::initialized\<close>\<close>
  term_backup :: termios           \<comment> \<open>\<^verbatim>\<open>bplIO::term_backup\<close>\<close>
  stdin_file :: descriptor         \<comment> \<open>what descriptor 0 refers to\<close>
  pending :: "byte list"           \<comment> \<open>bytes on descriptor 0 that a read can take now\<close>
  held :: "byte list"              \<comment> \<open>bytes typed in canonical mode, their line not complete\<close>
  eof :: bool                      \<comment> \<open>on a stream or device: no byte follows those pending\<close>
  nonblocking :: bool              \<comment> \<open>\<^verbatim>\<open>O_NONBLOCK\<close> is set on descriptor 0\<close>
  stdin_buffering :: buffering     \<comment> \<open>buffering mode of the stdio stream \<^verbatim>\<open>stdin\<close>\<close>
  echoed :: "byte list"            \<comment> \<open>what the terminal driver has echoed to the display\<close>
  written :: "termios list"        \<comment> \<open>the attribute sets passed to \<^verbatim>\<open>tcsetattr\<close>, oldest first\<close>
  calls :: "call list"             \<comment> \<open>the library and system calls made, oldest first\<close>

text \<open>
  The state of a process when \<^verbatim>\<open>main\<close> starts: the statics as lines 145-146 of the source
  initialise them, descriptor 0 open for blocking reads, no unfinished line, nothing
  called yet.
\<close>

definition process_start :: "descriptor \<Rightarrow> byte list \<Rightarrow> bool \<Rightarrow> buffering \<Rightarrow> state" where
  "process_start f q e b =
     \<lparr>initialized = False, term_backup = zero_termios, stdin_file = f, pending = q,
      held = [], eof = e, nonblocking = False, stdin_buffering = b, echoed = [],
      written = [], calls = []\<rparr>"

definition tty_attrs :: "state \<Rightarrow> termios option" where
  "tty_attrs s = (case stdin_file s of Terminal t \<Rightarrow> Some t | _ \<Rightarrow> None)"

definition called :: "call \<Rightarrow> state \<Rightarrow> state" where
  "called c s = s\<lparr>calls := calls s @ [c]\<rparr>"

subsection \<open>The operating system, at file descriptor 0\<close>

text \<open>
  The source passes \<^verbatim>\<open>STDIN = 0\<close> to every call, so each call is modelled at descriptor 0.
  A call returns its C result (0 or a count on success, -1 on failure) next to the new
  state; an out-parameter is passed in with the contents the caller's variable had and
  handed back unchanged when the call fails. Signals are not modelled.
\<close>

definition tcgetattr :: "termios \<Rightarrow> state \<Rightarrow> cint \<times> termios \<times> state" where
  "tcgetattr buf s =
     (case stdin_file s of
        Terminal t \<Rightarrow> (0, t, called Tcgetattr s)
      | _ \<Rightarrow> (- 1, buf, called Tcgetattr s))"

text \<open>
  \<^verbatim>\<open>tcsetattr(0, TCSANOW, &t)\<close>: the change is made at once. The set passed is recorded in
  \<open>written\<close> whether or not the call succeeds. On a terminal the model stores the set as it
  is given. A driver may adjust what it is given (a pseudo-terminal forces the character
  size and the receiver bit of \<^verbatim>\<open>c_cflag\<close>), so the stored set is exact for a set that was
  read from this terminal and changed in its local modes only; what may be relied on
  otherwise is \<open>written\<close>. When the new set is non-canonical, the bytes of an unfinished
  line become readable.
\<close>

definition tcsetattr :: "termios \<Rightarrow> state \<Rightarrow> cint \<times> state" where
  "tcsetattr t s =
     (case stdin_file s of
        Terminal _ \<Rightarrow>
          (0, called Tcsetattr
                (s\<lparr>written := written s @ [t], stdin_file := Terminal t,
                   pending := (if c_lflag t AND ICANON = 0 then pending s @ held s
                               else pending s),
                   held := (if c_lflag t AND ICANON = 0 then [] else held s)\<rparr>))
      | _ \<Rightarrow> (- 1, called Tcsetattr (s\<lparr>written := written s @ [t]\<rparr>)))"

text \<open>\<^verbatim>\<open>setbuf(stdin, nullptr)\<close> makes the stream unbuffered; it returns nothing.\<close>

definition setbuf_null :: "state \<Rightarrow> state" where
  "setbuf_null s = called Setbuf (s\<lparr>stdin_buffering := Unbuffered\<rparr>)"

definition setlinebuf :: "state \<Rightarrow> state" where
  "setlinebuf s = called Setlinebuf (s\<lparr>stdin_buffering := LineBuffered\<rparr>)"

text \<open>
  \<^verbatim>\<open>ioctl(0, FIONREAD, &n)\<close> stores the number of bytes that can be read at once, cut to an
  \<^verbatim>\<open>int\<close>. A terminal, a pipe and a regular file answer it; it fails on a closed
  descriptor, on a terminal that has hung up and on a device that cannot count.
\<close>

definition ioctl_FIONREAD :: "cint \<Rightarrow> state \<Rightarrow> cint \<times> cint \<times> state" where
  "ioctl_FIONREAD n s =
     (case stdin_file s of
        Stream \<Rightarrow> (0, word_of_nat (length (pending s)), called Ioctl_FIONREAD s)
      | Terminal _ \<Rightarrow> (0, word_of_nat (length (pending s)), called Ioctl_FIONREAD s)
      | _ \<Rightarrow> (- 1, n, called Ioctl_FIONREAD s))"

text \<open>
  \<^verbatim>\<open>ioctl(0, TCFLSH, arg)\<close>: on a terminal, 0 (\<^verbatim>\<open>TCIFLUSH\<close>) discards the input received and
  not read, an unfinished line included, 1 (\<^verbatim>\<open>TCOFLUSH\<close>) the output not yet written, 2
  (\<^verbatim>\<open>TCIOFLUSH\<close>) both; any other argument, and any other kind of file, is an error.
\<close>

definition ioctl_TCFLSH :: "cint \<Rightarrow> state \<Rightarrow> cint \<times> state" where
  "ioctl_TCFLSH arg s =
     (case stdin_file s of
        Terminal _ \<Rightarrow>
          (if arg = 0 \<or> arg = 2
           then (0, called Ioctl_TCFLSH (s\<lparr>pending := [], held := []\<rparr>))
           else if arg = 1 then (0, called Ioctl_TCFLSH s)
           else (- 1, called Ioctl_TCFLSH s))
      | _ \<Rightarrow> (- 1, called Ioctl_TCFLSH s))"

text \<open>
  \<^verbatim>\<open>read(0, buf, 1)\<close>. \<open>None\<close> is the call that blocks. Otherwise the result is 1 with the
  first pending byte taken from the queue, or 0 or -1 with the buffer left as it was: -1
  on a closed descriptor, 0 on a terminal that has hung up, and with nothing pending
  \<^item> on a stream or device, 0 at end of file, else -1 with \<^verbatim>\<open>O_NONBLOCK\<close>, else the call
    blocks;
  \<^item> on a terminal whose reads wait, -1 with \<^verbatim>\<open>O_NONBLOCK\<close>, else the call blocks;
  \<^item> on a non-canonical terminal with \<^verbatim>\<open>MIN = 0\<close>, 0 (after the \<^verbatim>\<open>TIME\<close> timer, if one is
    set), but -1 where a timer is set and \<^verbatim>\<open>O_NONBLOCK\<close> too.
\<close>

definition read1 :: "byte \<Rightarrow> state \<Rightarrow> (cint \<times> byte \<times> state) option" where
  "read1 buf s =
     (case stdin_file s of
        Closed \<Rightarrow> Some (- 1, buf, called Read s)
      | HungUp \<Rightarrow> Some (0, buf, called Read s)
      | Terminal t \<Rightarrow>
          (case pending s of
             b # bs \<Rightarrow> Some (1, b, called Read (s\<lparr>pending := bs\<rparr>))
           | [] \<Rightarrow>
               if read_waits t
               then (if nonblocking s then Some (- 1, buf, called Read s) else None)
               else if cc t VTIME \<noteq> 0 \<and> nonblocking s
                    then Some (- 1, buf, called Read s)
                    else Some (0, buf, called Read s))
      | _ \<Rightarrow>
          (case pending s of
             b # bs \<Rightarrow> Some (1, b, called Read (s\<lparr>pending := bs\<rparr>))
           | [] \<Rightarrow>
               if eof s then Some (0, buf, called Read s)
               else if nonblocking s then Some (- 1, buf, called Read s)
               else None))"

text \<open>
  A key press, the one event of the environment that is modelled, and only for an
  ordinary byte: a byte that the driver, under the modes of \<open>t\<close>, neither maps to another
  nor takes for a control, signal or flow-control character. It is not a control
  character, not 255, equal to none of the control characters of \<open>t\<close>, and \<^verbatim>\<open>PARMRK\<close>,
  \<^verbatim>\<open>ISTRIP\<close>, \<^verbatim>\<open>IUCLC\<close> and \<^verbatim>\<open>OLCUC\<close> are clear.
\<close>

definition ordinary :: "termios \<Rightarrow> byte \<Rightarrow> bool" where
  "ordinary t b =
     (32 \<le> b \<and> b \<noteq> 127 \<and> b \<noteq> 255 \<and> b \<notin> set (c_cc t) \<and>
      c_iflag t AND (PARMRK OR ISTRIP OR IUCLC) = 0 \<and> c_oflag t AND OLCUC = 0)"

text \<open>
  The driver has room for 4095 bytes. With room left, an ordinary byte typed on a
  non-canonical terminal is readable at once; on a canonical terminal it joins the
  unfinished line. Either way it is echoed to the display, as it arrives, when \<^verbatim>\<open>ECHO\<close> is
  set in the local modes. Every other key press (a line delimiter or another special
  character, a full buffer) is outside the model: the state is returned as it is, and
  nothing below speaks of such a key press.
\<close>

definition key_press :: "byte \<Rightarrow> state \<Rightarrow> state" where
  "key_press b s =
     (case stdin_file s of
        Terminal t \<Rightarrow>
          if ordinary t b \<and> length (pending s) + length (held s) < 4095
          then (if c_lflag t AND ICANON = 0
                then s\<lparr>pending := pending s @ [b]\<rparr>
                else s\<lparr>held := held s @ [b]\<rparr>)
               \<lparr>echoed := (if c_lflag t AND ECHO \<noteq> 0 then echoed s @ [b] else echoed s)\<rparr>
          else s
      | _ \<Rightarrow> s)"

subsection \<open>The five operations of the source\<close>

text \<open>
  Each operation is written once, with the system calls it makes as parameters: whatever
  function stands for a call, the operation is the same sequence of steps. No result of
  a call is looked at.

  \<^verbatim>\<open>enableIO\<close> (lines 54-68). The local \<^verbatim>\<open>termios term\<close> is not initialised; \<open>term0\<close> is
  what it holds when the function is entered.
\<close>

definition enableIO_on ::
  "(termios \<Rightarrow> state \<Rightarrow> cint \<times> termios \<times> state) \<Rightarrow> (termios \<Rightarrow> state \<Rightarrow> cint \<times> state) \<Rightarrow>
   termios \<Rightarrow> state \<Rightarrow> state" where
  "enableIO_on get_attr set_attr term0 s =
     setbuf_null
       (if \<not> initialized s then
          (let (r1, term, s1) = get_attr term0 s;
               s2 = s1\<lparr>term_backup := term\<rparr>;
               term' = term\<lparr>c_lflag := c_lflag term AND NOT ICANON\<rparr>;
               (r2, s3) = set_attr term' s2
           in s3\<lparr>initialized := True\<rparr>)
        else s)"

text \<open>\<^verbatim>\<open>disableIO\<close> (lines 79-83).\<close>

definition disableIO_on :: "(termios \<Rightarrow> state \<Rightarrow> cint \<times> state) \<Rightarrow> state \<Rightarrow> state" where
  "disableIO_on set_attr s =
     (let s1 = setlinebuf s;
          (r, s2) = set_attr (term_backup s1) s1
      in s2)"

text \<open>
  \<^verbatim>\<open>_kbhit\<close> (lines 95-100); \<open>bytesWaiting0\<close> is what the uninitialised local holds on
  entry. (An Isabelle name cannot start with an underscore.)
\<close>

definition kbhit_on ::
  "(cint \<Rightarrow> state \<Rightarrow> cint \<times> cint \<times> state) \<Rightarrow> cint \<Rightarrow> state \<Rightarrow> cint \<times> state" where
  "kbhit_on fionread bytesWaiting0 s =
     (let (r, bytesWaiting, s1) = fionread bytesWaiting0 s
      in (bytesWaiting, s1))"

text \<open>
  \<^verbatim>\<open>return buf[0];\<close> converts a plain \<^verbatim>\<open>char\<close> to \<^verbatim>\<open>int\<close>. Whether plain \<^verbatim>\<open>char\<close> is signed is
  the platform's choice (signed on x86 Linux, unsigned on ARM Linux), so it is a parameter.
\<close>

definition char_to_int :: "bool \<Rightarrow> byte \<Rightarrow> cint" where
  "char_to_int char_signed c = (if char_signed then scast c else ucast c)"

text \<open>
  \<^verbatim>\<open>_getch\<close> (lines 114-120); \<open>buf0\<close> is what the uninitialised \<^verbatim>\<open>buf[0]\<close> holds on entry,
  and \<open>None\<close> is the call that does not return because \<^verbatim>\<open>read\<close> blocks.
\<close>

definition getch_on ::
  "(byte \<Rightarrow> state \<Rightarrow> (cint \<times> byte \<times> state) option) \<Rightarrow> bool \<Rightarrow> byte \<Rightarrow> state \<Rightarrow>
   (cint \<times> state) option" where
  "getch_on read_one char_signed buf0 s =
     (case read_one buf0 s of
        None \<Rightarrow> None
      | Some (r, b, s1) \<Rightarrow> Some (char_to_int char_signed b, s1))"

text \<open>\<^verbatim>\<open>_flush\<close> (lines 129-132): the argument of the \<^verbatim>\<open>ioctl\<close> is 0.\<close>

definition flush_on :: "(cint \<Rightarrow> state \<Rightarrow> cint \<times> state) \<Rightarrow> state \<Rightarrow> state" where
  "flush_on tcflsh s = (let (r, s1) = tcflsh 0 s in s1)"

text \<open>The five operations on the operating system modelled above.\<close>

definition enableIO :: "termios \<Rightarrow> state \<Rightarrow> state" where
  "enableIO = enableIO_on tcgetattr tcsetattr"

definition disableIO :: "state \<Rightarrow> state" where
  "disableIO = disableIO_on tcsetattr"

definition kbhit :: "cint \<Rightarrow> state \<Rightarrow> cint \<times> state" where
  "kbhit = kbhit_on ioctl_FIONREAD"

definition getch :: "bool \<Rightarrow> byte \<Rightarrow> state \<Rightarrow> (cint \<times> state) option" where
  "getch = getch_on read1"

definition flush :: "state \<Rightarrow> state" where
  "flush = flush_on ioctl_TCFLSH"

text \<open>
  A call with its result replaced by \<open>r'\<close>: what it stores and what it does to the state
  stay as they are.
\<close>

definition with_result :: "cint \<Rightarrow> cint \<times> 'a \<Rightarrow> cint \<times> 'a" where
  "with_result r' p = (r', snd p)"

subsection \<open>Sequences of enable and disable calls\<close>

text \<open>\<open>Enable\<close> carries the contents of the uninitialised local of that call.\<close>

datatype toggle = Enable termios | Disable

fun run :: "toggle list \<Rightarrow> state \<Rightarrow> state" where
  "run [] s = s"
| "run (Enable term0 # cs) s = run cs (enableIO term0 s)"
| "run (Disable # cs) s = run cs (disableIO s)"

text \<open>
  An example terminal: the attribute set of a Linux terminal in its usual line mode
  (\<^verbatim>\<open>ISIG | ICANON | ECHO | ECHOE | ECHOK | ECHOCTL | ECHOKE | IEXTEN\<close> in the local modes,
  \<^verbatim>\<open>MIN = 1\<close> and \<^verbatim>\<open>TIME = 0\<close>).
\<close>

definition cooked :: termios where
  "cooked = \<lparr>c_iflag = 0x500, c_oflag = 0x5, c_cflag = 0xBF, c_lflag = 0x8A3B, c_line = 0,
     c_cc = [3, 28, 127, 21, 4, 0, 1, 0, 17, 19, 26, 0, 18, 15, 23, 22] @ replicate 16 0,
     c_ispeed = 15, c_ospeed = 15\<rparr>"

text \<open>A process that has just started on such a terminal, with nothing typed yet.\<close>

definition demo :: state where
  "demo = process_start (Terminal cooked) [] False LineBuffered"

text \<open>The same process after its first \<open>enableIO\<close>: the terminal is non-canonical.\<close>

definition raw :: state where
  "raw = enableIO zero_termios demo"

text \<open>
  The example terminal with \<^verbatim>\<open>MIN = 0\<close>: once non-canonical, a read with nothing pending
  returns 0 at once.
\<close>

definition polling :: termios where
  "polling = cooked\<lparr>c_cc :=
     [3, 28, 127, 21, 4, 0, 0, 0, 17, 19, 26, 0, 18, 15, 23, 22] @ replicate 16 0\<rparr>"

text \<open>A process started with the byte 113 waiting on a pipe.\<close>

definition piped :: state where
  "piped = process_start Stream [113] False FullyBuffered"

section \<open>Basic facts\<close>

lemmas os_defs = called_def tcgetattr_def tcsetattr_def setbuf_null_def setlinebuf_def
  ioctl_FIONREAD_def ioctl_TCFLSH_def read1_def Let_def

lemmas op_defs = enableIO_def enableIO_on_def disableIO_def disableIO_on_def
  kbhit_def kbhit_on_def getch_def getch_on_def flush_def flush_on_def

lemma run_append: "run (xs @ ys) s = run ys (run xs s)"
  by (induction xs s rule: run.induct) simp_all

subsection \<open>The flag bits\<close>

lemma clear_ICANON_keeps_ECHO: "(w AND NOT ICANON) AND ECHO = w AND ECHO"
  by (simp add: ICANON_def ECHO_def word_bw_assocs)

lemma clear_ICANON: "(w AND NOT ICANON) AND ICANON = 0"
  by (simp add: ICANON_def word_bw_assocs)

lemma bit_clear_ICANON: "bit (w AND NOT ICANON) n = (bit w n \<and> n \<noteq> 1)"
proof -
  have "bit (NOT (2::32 word)) n = (n < 32 \<and> n \<noteq> 1)"
    unfolding bit_not_iff bit_2_iff by auto
  then show ?thesis
    unfolding ICANON_def bit_and_iff by (auto dest: bit_imp_le_length)
qed

subsection \<open>Converting a \<^verbatim>\<open>char\<close> and a byte count to \<^verbatim>\<open>int\<close>\<close>

lemma uint_byte_range: "0 \<le> uint (b::byte) \<and> uint b < 256"
  using uint_lt2p [of b] by simp

lemma sint_ucast_byte: "sint (ucast (b::byte) :: cint) = uint b"
proof -
  have "- (2 ^ 31) \<le> (0::int)" by simp
  also have "0 \<le> uint b" by simp
  finally have "- (2 ^ 31) \<le> uint b" .
  moreover have "uint b < 2 ^ 31"
    using uint_byte_range [of b] by simp
  ultimately have "signed_take_bit 31 (uint b) = uint b"
    by (rule signed_take_bit_int_eq_self)
  then show ?thesis
    by (simp add: signed_ucast_eq)
qed

lemma sint_byte: "sint (b::byte) = (if 128 \<le> uint b then uint b - 256 else uint b)"
proof (cases "128 \<le> uint b")
  case True
  have "sint b = take_bit 8 (uint b + 128) - 128"
    by (simp add: sint_uint signed_take_bit_eq_take_bit_shift)
  also have "take_bit 8 (uint b + 128) = (uint b + 128) mod 256"
    by (simp add: take_bit_eq_mod)
  also have "(uint b + 128) mod 256 = (uint b - 128) mod 256"
  proof -
    have e: "uint b + 128 = (uint b - 128) + 256" by simp
    show ?thesis by (subst e) (rule mod_add_self2)
  qed
  also have "\<dots> = uint b - 128"
    using True uint_byte_range [of b] by (simp add: mod_pos_pos_trivial)
  finally show ?thesis using True by simp
next
  case False
  have "- (2 ^ 7) \<le> (0::int)" by simp
  also have "0 \<le> uint b" by simp
  finally have "- (2 ^ 7) \<le> uint b" .
  moreover have "uint b < 2 ^ 7" using False by simp
  ultimately have "signed_take_bit 7 (uint b) = uint b"
    by (rule signed_take_bit_int_eq_self)
  then have "sint b = uint b"
    by (simp add: sint_uint)
  then show ?thesis using False by simp
qed

lemma sint_scast_byte: "sint (scast (b::byte) :: cint) = sint b"
  by (simp add: sint_up_scast is_up)

lemma sint_char_to_int:
  "sint (char_to_int sg b) = (if sg \<and> 128 \<le> uint b then uint b - 256 else uint b)"
  by (simp add: char_to_int_def sint_scast_byte sint_ucast_byte sint_byte)


subsection \<open>What \<open>enableIO\<close> and \<open>disableIO\<close> do to each part of the state\<close>

lemma enableIO_initialized: "initialized (enableIO term0 s)"
  by (simp add: op_defs os_defs split: descriptor.splits)

lemma enableIO_term_backup:
  "term_backup (enableIO term0 s) =
     (if initialized s then term_backup s
      else case stdin_file s of Terminal t \<Rightarrow> t | _ \<Rightarrow> term0)"
  by (simp add: op_defs os_defs split: descriptor.splits)

lemma enableIO_stdin_file:
  "stdin_file (enableIO term0 s) =
     (if initialized s then stdin_file s
      else case stdin_file s of
             Terminal t \<Rightarrow> Terminal (t\<lparr>c_lflag := c_lflag t AND NOT ICANON\<rparr>)
           | f \<Rightarrow> f)"
  by (simp add: op_defs os_defs split: descriptor.splits)

lemma enableIO_calls:
  "calls (enableIO term0 s) =
     calls s @ (if initialized s then [] else [Tcgetattr, Tcsetattr]) @ [Setbuf]"
  by (simp add: op_defs os_defs split: descriptor.splits)

lemma enableIO_written:
  "written (enableIO term0 s) =
     written s @
     (if initialized s then []
      else [(case stdin_file s of Terminal t \<Rightarrow> t | _ \<Rightarrow> term0)
              \<lparr>c_lflag := c_lflag (case stdin_file s of Terminal t \<Rightarrow> t | _ \<Rightarrow> term0)
                            AND NOT ICANON\<rparr>])"
  by (simp add: op_defs os_defs split: descriptor.splits)

lemma enableIO_pending:
  "pending (enableIO term0 s) =
     (if initialized s then pending s
      else case stdin_file s of Terminal t \<Rightarrow> pending s @ held s | _ \<Rightarrow> pending s)"
  by (simp add: op_defs os_defs clear_ICANON split: descriptor.splits)

lemma enableIO_held:
  "held (enableIO term0 s) =
     (if initialized s then held s
      else case stdin_file s of Terminal t \<Rightarrow> [] | _ \<Rightarrow> held s)"
  by (simp add: op_defs os_defs clear_ICANON split: descriptor.splits)

lemma enableIO_others:
  "echoed (enableIO term0 s) = echoed s \<and> eof (enableIO term0 s) = eof s \<and>
   nonblocking (enableIO term0 s) = nonblocking s"
  by (simp add: op_defs os_defs split: descriptor.splits)

lemma disableIO_statics:
  "initialized (disableIO s) = initialized s \<and> term_backup (disableIO s) = term_backup s"
  by (simp add: op_defs os_defs split: descriptor.splits)

lemma disableIO_stdin_file:
  "stdin_file (disableIO s) =
     (case stdin_file s of Terminal t \<Rightarrow> Terminal (term_backup s) | f \<Rightarrow> f)"
  by (simp add: op_defs os_defs split: descriptor.splits)

lemma disableIO_calls: "calls (disableIO s) = calls s @ [Setlinebuf, Tcsetattr]"
  by (simp add: op_defs os_defs split: descriptor.splits)

lemma disableIO_written: "written (disableIO s) = written s @ [term_backup s]"
  by (simp add: op_defs os_defs split: descriptor.splits)

lemma enableIO_tty: "(tty_attrs (enableIO term0 s) = None) = (tty_attrs s = None)"
  by (simp add: tty_attrs_def enableIO_stdin_file split: descriptor.splits)

lemma disableIO_tty: "(tty_attrs (disableIO s) = None) = (tty_attrs s = None)"
  by (simp add: tty_attrs_def disableIO_stdin_file split: descriptor.splits)

subsection \<open>What \<open>kbhit\<close>, \<open>getch\<close>, \<open>flush\<close> and a key press do\<close>

lemma kbhit_value:
  "fst (kbhit n0 s) =
     (case stdin_file s of
        Stream \<Rightarrow> word_of_nat (length (pending s))
      | Terminal t \<Rightarrow> word_of_nat (length (pending s))
      | _ \<Rightarrow> n0)"
  by (simp add: op_defs os_defs split: descriptor.splits)

lemma kbhit_state: "snd (kbhit n0 s) = called Ioctl_FIONREAD s"
  by (simp add: op_defs os_defs split: descriptor.splits)

lemma getch_byte:
  "stdin_file s \<noteq> Closed \<Longrightarrow> stdin_file s \<noteq> HungUp \<Longrightarrow> pending s = b # bs \<Longrightarrow>
   getch sg buf0 s = Some (char_to_int sg b, called Read (s\<lparr>pending := bs\<rparr>))"
  by (simp add: op_defs os_defs split: descriptor.splits)

lemma getch_read1:
  "getch sg buf0 s =
     (case read1 buf0 s of
        None \<Rightarrow> None
      | Some (r, b, s1) \<Rightarrow> Some (char_to_int sg (if r = 1 then b else buf0), s1))"
  by (simp add: op_defs os_defs split: descriptor.splits list.splits)

lemma read1_calls: "read1 buf0 s = Some (r, b, s1) \<Longrightarrow> calls s1 = calls s @ [Read]"
  by (auto simp: os_defs split: descriptor.splits list.splits if_splits)

lemma read1_blocks:
  "read1 buf0 s = None \<Longrightarrow>
   pending s = [] \<and> \<not> nonblocking s \<and> stdin_file s \<noteq> Closed \<and> stdin_file s \<noteq> HungUp"
  by (auto simp: os_defs split: descriptor.splits list.splits if_splits)

lemma getch_terminal_blocks:
  "stdin_file s = Terminal t \<Longrightarrow> read_waits t \<Longrightarrow> \<not> nonblocking s \<Longrightarrow> pending s = [] \<Longrightarrow>
   getch sg buf0 s = None"
  by (simp add: op_defs os_defs)

lemma getch_terminal_stale:
  "stdin_file s = Terminal t \<Longrightarrow> pending s = [] \<Longrightarrow>
   (if read_waits t then nonblocking s else True) \<Longrightarrow>
   getch sg buf0 s = Some (char_to_int sg buf0, called Read s)"
  by (simp add: getch_def getch_on_def read1_def split: if_splits)

lemma getch_stale:
  "stdin_file s = Closed \<or> stdin_file s = HungUp \<or>
   (stdin_file s = Stream \<or> stdin_file s = Device) \<and> pending s = [] \<and> eof s \<Longrightarrow>
   getch sg buf0 s = Some (char_to_int sg buf0, called Read s)"
  by (auto simp: op_defs os_defs)

lemma flush_terminal:
  "stdin_file s = Terminal t \<Longrightarrow>
   flush s = called Ioctl_TCFLSH (s\<lparr>pending := [], held := []\<rparr>)"
  by (simp add: op_defs os_defs)

lemma flush_other:
  "tty_attrs s = None \<Longrightarrow> flush s = called Ioctl_TCFLSH s"
  by (simp add: op_defs os_defs tty_attrs_def split: descriptor.splits)

lemma flush_calls: "calls (flush s) = calls s @ [Ioctl_TCFLSH]"
  by (simp add: op_defs os_defs split: descriptor.splits)

lemma key_press_raw:
  "stdin_file s = Terminal t \<Longrightarrow> c_lflag t AND ICANON = 0 \<Longrightarrow> ordinary t k \<Longrightarrow>
   length (pending s) + length (held s) < 4095 \<Longrightarrow>
   pending (key_press k s) = pending s @ [k] \<and> held (key_press k s) = held s \<and>
   echoed (key_press k s) = (if c_lflag t AND ECHO \<noteq> 0 then echoed s @ [k] else echoed s) \<and>
   stdin_file (key_press k s) = stdin_file s \<and> nonblocking (key_press k s) = nonblocking s"
  by (simp add: key_press_def)

subsection \<open>The example terminal after \<open>enableIO\<close>\<close>

lemma raw_state:
  "stdin_file raw = Terminal (cooked\<lparr>c_lflag := 0x8A39\<rparr>) \<and> pending raw = [] \<and>
   held raw = [] \<and> echoed raw = [] \<and> \<not> nonblocking raw"
  by (simp add: raw_def enableIO_stdin_file enableIO_pending enableIO_held enableIO_others
      demo_def process_start_def ICANON_def cooked_def)

lemma raw_modes:
  "c_lflag (cooked\<lparr>c_lflag := 0x8A39\<rparr>) AND ICANON = 0 \<and>
   c_lflag (cooked\<lparr>c_lflag := 0x8A39\<rparr>) AND ECHO \<noteq> 0 \<and>
   read_waits (cooked\<lparr>c_lflag := 0x8A39\<rparr>)"
  by (simp add: ICANON_def ECHO_def read_waits_def cc_def VMIN_def cooked_def)

lemma raw_ordinary:
  "ordinary (cooked\<lparr>c_lflag := 0x8A39\<rparr>) 97 \<and> ordinary (cooked\<lparr>c_lflag := 0x8A39\<rparr>) 113 \<and>
   ordinary (cooked\<lparr>c_lflag := 0x8A39\<rparr>) 120 \<and> ordinary (cooked\<lparr>c_lflag := 0x8A39\<rparr>) 233"
  by (simp add: ordinary_def cooked_def PARMRK_def ISTRIP_def IUCLC_def OLCUC_def)

lemma raw_key:
  "ordinary (cooked\<lparr>c_lflag := 0x8A39\<rparr>) k \<Longrightarrow>
   stdin_file (key_press k raw) = Terminal (cooked\<lparr>c_lflag := 0x8A39\<rparr>) \<and>
   pending (key_press k raw) = [k] \<and> held (key_press k raw) = [] \<and>
   echoed (key_press k raw) = [k] \<and> \<not> nonblocking (key_press k raw)"
  using raw_state raw_modes
    key_press_raw [of raw "cooked\<lparr>c_lflag := 0x8A39\<rparr>" k]
  by simp

subsection \<open>Sequences of calls\<close>

lemma run_statics:
  "initialized s \<Longrightarrow> initialized (run cs s) \<and> term_backup (run cs s) = term_backup s"
  by (induction cs s rule: run.induct)
     (simp_all add: enableIO_initialized enableIO_term_backup disableIO_statics)

lemma run_tty: "(tty_attrs (run cs s) = None) = (tty_attrs s = None)"
  by (induction cs s rule: run.induct) (simp_all add: enableIO_tty disableIO_tty)

lemma run_no_capture:
  "initialized s \<Longrightarrow> count_list (calls (run cs s)) Tcgetattr = count_list (calls s) Tcgetattr"
  by (induction cs s rule: run.induct)
     (simp_all add: enableIO_initialized enableIO_calls disableIO_statics disableIO_calls)

section \<open>Properties of the five operations\<close>

text \<open>
  C1. Take a process that has not called \<open>enableIO\<close> yet, on a terminal whose attribute
  set is \<open>t0\<close>. For every sequence of \<open>enableIO\<close> and \<open>disableIO\<close> calls that begins with
  \<open>enableIO\<close>, right after any \<open>disableIO\<close> of the sequence the terminal has the attribute
  set \<open>t0\<close> again: all of it, so the echo and the canonical-mode flag in particular. Only
  the calls of the process change the state: no other process touches the terminal.
\<close>

theorem C1_roundtrip:
  assumes "\<not> initialized s" and "stdin_file s = Terminal t0"
  shows "stdin_file (run (Enable term0 # cs @ [Disable]) s) = Terminal t0"
proof -
  let ?s1 = "enableIO term0 s"
  let ?s2 = "run cs ?s1"
  have b1: "initialized ?s1" "term_backup ?s1 = t0"
    using assms by (simp_all add: enableIO_initialized enableIO_term_backup)
  have "tty_attrs ?s1 \<noteq> None"
    using assms by (simp add: tty_attrs_def enableIO_stdin_file)
  then have "tty_attrs ?s2 \<noteq> None" by (simp add: run_tty)
  moreover have "term_backup ?s2 = t0" using run_statics [OF b1(1), of cs] b1(2) by simp
  ultimately have "stdin_file (disableIO ?s2) = Terminal t0"
    by (simp add: disableIO_stdin_file tty_attrs_def split: descriptor.splits)
  then show ?thesis by (simp add: run_append)
qed

theorem C1_roundtrip_witness:
  "\<not> initialized demo \<and> stdin_file demo = Terminal cooked \<and>
   stdin_file (run [Enable zero_termios, Disable, Enable zero_termios, Disable] demo)
     = Terminal cooked"
  using C1_roundtrip [of demo cooked zero_termios "[Disable, Enable zero_termios]"]
  by (simp add: demo_def process_start_def)

text \<open>
  C2, evaluated on the example terminal, whose local modes have \<^verbatim>\<open>ECHO\<close> set: after
  \<open>enableIO\<close> the local modes are \<^verbatim>\<open>0x8A39\<close>, the old value without \<^verbatim>\<open>ICANON\<close> and with
  \<^verbatim>\<open>ECHO\<close> still set, so the byte of a key pressed then is echoed to the display, and
  \<open>getch\<close> returns that same byte. The source's comment on \<^verbatim>\<open>_getch\<close> promises a read
  without echo.
\<close>

theorem C2_echo_stays_on:
  "tty_attrs (enableIO zero_termios demo) = Some (cooked\<lparr>c_lflag := 0x8A39\<rparr>) \<and>
   (0x8A39 :: tcflag_t) AND ECHO = ECHO \<and>
   echoed (key_press 97 (enableIO zero_termios demo)) = [97] \<and>
   map_option (sint \<circ> fst) (getch True 0 (key_press 97 (enableIO zero_termios demo)))
     = Some 97"
proof -
  have e: "(0x8A39 :: tcflag_t) AND ECHO = ECHO"
    by (simp add: ECHO_def)
  have k: "stdin_file (key_press 97 raw) = Terminal (cooked\<lparr>c_lflag := 0x8A39\<rparr>)"
      "pending (key_press 97 raw) = [97]" "echoed (key_press 97 raw) = [97]"
    using raw_key [of 97] raw_ordinary by simp_all
  have "getch True 0 (key_press 97 raw) =
      Some (char_to_int True 97, called Read (key_press 97 raw\<lparr>pending := []\<rparr>))"
    using k by (simp add: getch_byte)
  then show ?thesis
    using raw_state e k by (simp add: tty_attrs_def char_to_int_def raw_def)
qed

text \<open>
  C3, as amended. When a byte \<open>b\<close> is pending on standard input (an open descriptor that
  has not hung up), \<open>getch\<close> takes exactly that byte off the queue and returns it converted
  from plain \<^verbatim>\<open>char\<close> to \<^verbatim>\<open>int\<close>: the value of the byte when it is below 128 (so the
  character a gives 97) or when plain \<^verbatim>\<open>char\<close> is unsigned, and the value less 256 for a
  byte from 128 to 255 where plain \<^verbatim>\<open>char\<close> is signed.
\<close>

theorem C3_getch_value:
  assumes "stdin_file s \<noteq> Closed" and "stdin_file s \<noteq> HungUp" and "pending s = b # bs"
  shows "getch sg buf0 s = Some (char_to_int sg b, called Read (s\<lparr>pending := bs\<rparr>)) \<and>
         sint (char_to_int sg b) = (if sg \<and> 128 \<le> uint b then uint b - 256 else uint b) \<and>
         (uint b < 128 \<longrightarrow> sint (char_to_int sg b) = uint b)"
  using assms by (simp add: getch_byte sint_char_to_int)

theorem C3_getch_value_witness:
  "stdin_file (key_press 97 raw) \<noteq> Closed \<and> stdin_file (key_press 97 raw) \<noteq> HungUp \<and>
   pending (key_press 97 raw) = [97] \<and>
   map_option (sint \<circ> fst) (getch True 0 (key_press 97 raw)) = Some 97 \<and>
   map_option (sint \<circ> fst) (getch False 0 (key_press 97 raw)) = Some 97"
proof -
  have p: "stdin_file (key_press 97 raw) \<noteq> Closed" "stdin_file (key_press 97 raw) \<noteq> HungUp"
      "pending (key_press 97 raw) = [97]"
    using raw_key [of 97] raw_ordinary by simp_all
  show ?thesis
    using p C3_getch_value [OF p, of True 0] C3_getch_value [OF p, of False 0]
    by simp
qed

text \<open>
  C3 as the specification words it (the value of the byte, whatever the byte) fails where
  plain \<^verbatim>\<open>char\<close> is signed: the byte 233, typed on the example terminal after \<open>enableIO\<close> or
  waiting on a pipe, comes back as -23.
\<close>

theorem C3_high_byte_counterexample:
  "pending (key_press 233 raw) = [233] \<and>
   map_option (sint \<circ> fst) (getch True 0 (key_press 233 raw)) = Some (- 23) \<and>
   map_option (sint \<circ> fst) (getch True 0 (key_press 233 raw)) \<noteq> Some (uint (233 :: byte)) \<and>
   map_option (sint \<circ> fst) (getch True 0 (process_start Stream [233] False FullyBuffered))
     = Some (- 23)"
proof -
  have p: "stdin_file (key_press 233 raw) \<noteq> Closed" "stdin_file (key_press 233 raw) \<noteq> HungUp"
      "pending (key_press 233 raw) = [233]"
    using raw_key [of 233] raw_ordinary by simp_all
  have q: "stdin_file (process_start Stream [233] False FullyBuffered) \<noteq> Closed"
      "stdin_file (process_start Stream [233] False FullyBuffered) \<noteq> HungUp"
      "pending (process_start Stream [233] False FullyBuffered) = [233]"
    by (simp_all add: process_start_def)
  show ?thesis
    using p by (simp add: getch_byte [OF p] getch_byte [OF q] char_to_int_def)
qed

text \<open>
  C4. On a terminal with attribute set \<open>t0\<close>, in a process that has not called \<open>enableIO\<close>
  yet: after two \<open>enableIO\<close> calls in a row the saved snapshot is still \<open>t0\<close> (the second
  call neither reads nor writes the terminal), and one \<open>disableIO\<close> gives the terminal the
  attribute set \<open>t0\<close> again.
\<close>

theorem C4_enable_twice:
  assumes "\<not> initialized s" and "stdin_file s = Terminal t0"
  shows "term_backup (enableIO b (enableIO a s)) = t0 \<and>
         stdin_file (enableIO b (enableIO a s)) = stdin_file (enableIO a s) \<and>
         stdin_file (disableIO (enableIO b (enableIO a s))) = Terminal t0"
  using assms
  by (simp add: enableIO_initialized enableIO_term_backup enableIO_stdin_file
      disableIO_stdin_file)

theorem C4_enable_twice_witness:
  "\<not> initialized demo \<and> stdin_file demo = Terminal cooked \<and>
   term_backup (enableIO cooked (enableIO zero_termios demo)) = cooked \<and>
   stdin_file (disableIO (enableIO cooked (enableIO zero_termios demo))) = Terminal cooked"
  using C4_enable_twice [of demo cooked cooked zero_termios]
  by (simp add: demo_def process_start_def)

text \<open>
  C5. In a process that has not called \<open>enableIO\<close> yet, the first \<open>enableIO\<close> reads the
  terminal before it writes to it, and whatever sequence of \<open>enableIO\<close> and \<open>disableIO\<close>
  calls follows, the flag is true, the snapshot is what that first read gave (the
  attribute set the terminal had before the call) and the terminal has been read exactly
  once. \<open>disableIO\<close>, in any state, changes neither the flag nor the snapshot.
\<close>

theorem C5_snapshot_once:
  assumes "\<not> initialized s"
  shows "calls (enableIO term0 s) = calls s @ [Tcgetattr, Tcsetattr, Setbuf] \<and>
         initialized (run (Enable term0 # cs) s) \<and>
         term_backup (run (Enable term0 # cs) s) =
           (case stdin_file s of Terminal t \<Rightarrow> t | _ \<Rightarrow> term0) \<and>
         count_list (calls (run (Enable term0 # cs) s)) Tcgetattr =
           count_list (calls s) Tcgetattr + 1 \<and>
         initialized (disableIO s') = initialized s' \<and>
         term_backup (disableIO s') = term_backup s'"
proof -
  have i: "initialized (enableIO term0 s)" by (rule enableIO_initialized)
  have "count_list (calls (enableIO term0 s)) Tcgetattr = count_list (calls s) Tcgetattr + 1"
    using assms by (simp add: enableIO_calls)
  then show ?thesis
    using assms run_statics [OF i, of cs] run_no_capture [OF i, of cs]
    by (simp add: enableIO_calls enableIO_term_backup disableIO_statics)
qed

theorem C5_snapshot_once_witness:
  "\<not> initialized demo \<and>
   calls (enableIO zero_termios demo) = [Tcgetattr, Tcsetattr, Setbuf] \<and>
   term_backup (run [Enable zero_termios, Disable, Enable zero_termios] demo) = cooked \<and>
   count_list (calls (run [Enable zero_termios, Disable, Enable zero_termios] demo)) Tcgetattr
     = 1"
  using C5_snapshot_once [of demo zero_termios "[Disable, Enable zero_termios]"]
  by (simp add: demo_def process_start_def)

text \<open>
  C6, as amended. On a terminal whose reads wait (canonical mode, or \<^verbatim>\<open>MIN > 0\<close>), with
  descriptor 0 open for blocking reads, whatever is pending: after \<open>flush\<close> nothing is
  pending and no unfinished line is left, \<open>kbhit\<close> returns 0, and \<open>getch\<close> (right after
  the flush, or after that \<open>kbhit\<close>) blocks.
\<close>

theorem C6_flush_discards:
  assumes "stdin_file s = Terminal t" and "read_waits t" and "\<not> nonblocking s"
  shows "pending (flush s) = [] \<and> held (flush s) = [] \<and>
         fst (kbhit n0 (flush s)) = 0 \<and>
         getch sg buf0 (snd (kbhit n0 (flush s))) = None \<and>
         getch sg buf0 (flush s) = None"
proof -
  have f: "flush s = called Ioctl_TCFLSH (s\<lparr>pending := [], held := []\<rparr>)"
    using assms(1) by (rule flush_terminal)
  have t: "stdin_file (flush s) = Terminal t" "pending (flush s) = []" "held (flush s) = []"
      "\<not> nonblocking (flush s)"
    using assms by (simp_all add: f called_def)
  have k: "stdin_file (called Ioctl_FIONREAD (flush s)) = Terminal t"
      "pending (called Ioctl_FIONREAD (flush s)) = []"
      "\<not> nonblocking (called Ioctl_FIONREAD (flush s))"
    using t by (simp_all add: called_def)
  show ?thesis
    using t assms(2) getch_terminal_blocks [OF t(1) assms(2) t(4) t(2)]
      getch_terminal_blocks [OF k(1) assms(2) k(3) k(2)]
    by (simp add: kbhit_value kbhit_state)
qed

theorem C6_flush_discards_witness:
  "stdin_file (key_press 120 (key_press 113 raw)) = Terminal (cooked\<lparr>c_lflag := 0x8A39\<rparr>) \<and>
   read_waits (cooked\<lparr>c_lflag := 0x8A39\<rparr>) \<and>
   \<not> nonblocking (key_press 120 (key_press 113 raw)) \<and>
   pending (key_press 120 (key_press 113 raw)) = [113, 120] \<and>
   fst (kbhit 7 (flush (key_press 120 (key_press 113 raw)))) = 0 \<and>
   getch True 0 (snd (kbhit 7 (flush (key_press 120 (key_press 113 raw))))) = None"
proof -
  let ?t = "cooked\<lparr>c_lflag := 0x8A39\<rparr>"
  have a: "stdin_file (key_press 113 raw) = Terminal ?t" "pending (key_press 113 raw) = [113]"
      "held (key_press 113 raw) = []" "\<not> nonblocking (key_press 113 raw)"
    using raw_key [of 113] raw_ordinary by simp_all
  have b: "stdin_file (key_press 120 (key_press 113 raw)) = Terminal ?t"
      "pending (key_press 120 (key_press 113 raw)) = [113, 120]"
      "\<not> nonblocking (key_press 120 (key_press 113 raw))"
    using key_press_raw [of "key_press 113 raw" ?t 120] a raw_modes raw_ordinary
    by simp_all
  have w: "read_waits ?t" using raw_modes by simp
  show ?thesis
    using b w C6_flush_discards [OF b(1) w b(3), of 7 True 0] by simp
qed

text \<open>
  C6 as the specification words it (whatever standard input is) fails on a pipe: the
  \<^verbatim>\<open>ioctl\<close> of \<open>flush\<close> is for terminals and fails there, so the byte 113 that was pending
  before the flush is still counted by \<open>kbhit\<close> and delivered by \<open>getch\<close>. On a terminal
  the flush does discard the byte, but \<open>getch\<close> does not block afterwards where reads do
  not wait: with \<^verbatim>\<open>MIN = 0\<close>, and with \<^verbatim>\<open>O_NONBLOCK\<close>, \<^verbatim>\<open>read\<close> returns at once and \<open>getch\<close>
  returns what its buffer happened to hold (here 0).
\<close>

theorem C6_pipe_counterexample:
  "pending (flush (enableIO zero_termios piped)) = [113] \<and>
   fst (kbhit 7 (flush (enableIO zero_termios piped))) = 1 \<and>
   fst (kbhit 7 (flush (enableIO zero_termios piped))) \<noteq> 0 \<and>
   map_option (sint \<circ> fst) (getch True 0 (snd (kbhit 7 (flush (enableIO zero_termios piped)))))
     = Some 113 \<and>
   pending (key_press 113 (enableIO zero_termios
              (process_start (Terminal polling) [] False LineBuffered))) = [113] \<and>
   map_option fst (getch True 0 (flush (key_press 113 (enableIO zero_termios
              (process_start (Terminal polling) [] False LineBuffered))))) = Some 0 \<and>
   pending (key_press 113 (raw\<lparr>nonblocking := True\<rparr>)) = [113] \<and>
   map_option fst (getch True 0 (flush (key_press 113 (raw\<lparr>nonblocking := True\<rparr>))))
     = Some 0"
proof -
  let ?s = "enableIO zero_termios piped"
  have e: "stdin_file ?s = Stream" "pending ?s = [113]"
    by (simp_all add: enableIO_stdin_file enableIO_pending piped_def process_start_def)
  then have f: "flush ?s = called Ioctl_TCFLSH ?s"
    by (simp add: flush_other tty_attrs_def)
  have g: "stdin_file (called Ioctl_FIONREAD (flush ?s)) \<noteq> Closed"
      "stdin_file (called Ioctl_FIONREAD (flush ?s)) \<noteq> HungUp"
      "pending (called Ioctl_FIONREAD (flush ?s)) = [113]"
    using e by (simp_all add: f called_def)
  have h: "getch True 0 (snd (kbhit 7 (flush ?s))) =
      Some (char_to_int True 113, called Read (called Ioctl_FIONREAD (flush ?s)\<lparr>pending := []\<rparr>))"
    by (simp add: kbhit_state getch_byte [OF g])
  have v: "fst (kbhit 7 (flush ?s)) = 1" "pending (flush ?s) = [113]"
    using e by (simp_all add: kbhit_value f called_def)
  let ?t = "polling\<lparr>c_lflag := 0x8A39\<rparr>"
  let ?p = "enableIO zero_termios (process_start (Terminal polling) [] False LineBuffered)"
  have p: "stdin_file ?p = Terminal ?t" "pending ?p = []" "held ?p = []" "\<not> nonblocking ?p"
    by (simp_all add: enableIO_stdin_file enableIO_pending enableIO_held enableIO_others
        process_start_def ICANON_def polling_def cooked_def)
  have m: "c_lflag ?t AND ICANON = 0" "ordinary ?t 113" "\<not> read_waits ?t" "cc ?t VTIME = 0"
    by (simp_all add: ICANON_def ordinary_def polling_def cooked_def PARMRK_def ISTRIP_def
        IUCLC_def OLCUC_def read_waits_def cc_def VMIN_def VTIME_def)
  have kp: "pending (key_press 113 ?p) = [113]" "stdin_file (key_press 113 ?p) = Terminal ?t"
    using key_press_raw [OF p(1) m(1) m(2)] p by simp_all
  have fp: "flush (key_press 113 ?p) =
      called Ioctl_TCFLSH (key_press 113 ?p\<lparr>pending := [], held := []\<rparr>)"
    using kp(2) by (rule flush_terminal)
  have "stdin_file (flush (key_press 113 ?p)) = Terminal ?t"
      "pending (flush (key_press 113 ?p)) = []"
    using kp(2) by (simp_all add: fp called_def)
  then have gp: "getch True 0 (flush (key_press 113 ?p)) =
      Some (char_to_int True 0, called Read (flush (key_press 113 ?p)))"
    using m(3) by (simp add: getch_terminal_stale)
  let ?n = "raw\<lparr>nonblocking := True\<rparr>"
  have n: "stdin_file ?n = Terminal (cooked\<lparr>c_lflag := 0x8A39\<rparr>)" "pending ?n = []"
      "held ?n = []" "nonblocking ?n"
    using raw_state by simp_all
  have kn: "pending (key_press 113 ?n) = [113]"
      "stdin_file (key_press 113 ?n) = Terminal (cooked\<lparr>c_lflag := 0x8A39\<rparr>)"
      "nonblocking (key_press 113 ?n)"
    using key_press_raw [OF n(1), of 113] raw_modes raw_ordinary n by simp_all
  have fn: "flush (key_press 113 ?n) =
      called Ioctl_TCFLSH (key_press 113 ?n\<lparr>pending := [], held := []\<rparr>)"
    using kn(2) by (rule flush_terminal)
  have "stdin_file (flush (key_press 113 ?n)) = Terminal (cooked\<lparr>c_lflag := 0x8A39\<rparr>)"
      "pending (flush (key_press 113 ?n)) = []" "nonblocking (flush (key_press 113 ?n))"
    using kn(2) kn(3) by (simp_all add: fn called_def)
  then have gn: "getch True 0 (flush (key_press 113 ?n)) =
      Some (char_to_int True 0, called Read (flush (key_press 113 ?n)))"
    by (simp add: getch_terminal_stale)
  show ?thesis
    using v kp(1) kn(1) by (simp add: h gp gn char_to_int_def)
qed





text \<open>
  C9. No operation looks at the result of a call: with any functions at all standing for
  the calls, each operation does the same when a call's result is replaced by another
  value. On the modelled operating system, in every state, each operation makes the same
  calls, each once and in the same order, and returns a plain value: no operation has an
  error result, and \<open>getch\<close> fails to return only when \<^verbatim>\<open>read\<close> blocks. \<open>enableIO\<close> sets
  the flag whether or not its calls succeeded. Where \<^verbatim>\<open>tcgetattr\<close> fails, \<open>enableIO\<close> saves
  what its local happened to hold and passes that, without \<^verbatim>\<open>ICANON\<close>, to \<^verbatim>\<open>tcsetattr\<close>.
  Where the \<^verbatim>\<open>ioctl\<close> fails, \<open>kbhit\<close> returns what its local happened to hold. Where
  \<^verbatim>\<open>read\<close> returns 0 or -1 (at end of file, on a terminal that has hung up, on a closed
  descriptor), \<open>getch\<close> returns what its buffer happened to hold, not an error code.
\<close>

theorem C9_outcomes_ignored:
  "enableIO_on (\<lambda>buf st. with_result r1 (get_attr buf st))
       (\<lambda>t st. with_result r2 (set_attr t st)) term0 s
     = enableIO_on get_attr set_attr term0 s \<and>
   disableIO_on (\<lambda>t st. with_result r2 (set_attr t st)) s = disableIO_on set_attr s \<and>
   kbhit_on (\<lambda>n st. with_result r3 (fionread n st)) n0 s = kbhit_on fionread n0 s \<and>
   flush_on (\<lambda>a st. with_result r4 (tcflsh a st)) s = flush_on tcflsh s \<and>
   getch_on (\<lambda>b st. map_option (with_result r5) (read_one b st)) sg buf0 s
     = getch_on read_one sg buf0 s \<and>
   calls (enableIO term0 s) =
     calls s @ (if initialized s then [] else [Tcgetattr, Tcsetattr]) @ [Setbuf] \<and>
   initialized (enableIO term0 s) \<and>
   calls (disableIO s) = calls s @ [Setlinebuf, Tcsetattr] \<and>
   written (disableIO s) = written s @ [term_backup s] \<and>
   calls (snd (kbhit n0 s)) = calls s @ [Ioctl_FIONREAD] \<and>
   calls (flush s) = calls s @ [Ioctl_TCFLSH] \<and>
   (case read1 buf0 s of
      None \<Rightarrow> getch sg buf0 s = None \<and> pending s = [] \<and> \<not> nonblocking s
    | Some (r, b, s1) \<Rightarrow>
        getch sg buf0 s = Some (char_to_int sg (if r = 1 then b else buf0), s1) \<and>
        calls s1 = calls s @ [Read]) \<and>
   (tty_attrs s = None \<longrightarrow>
      term_backup (enableIO term0 s) = (if initialized s then term_backup s else term0) \<and>
      written (enableIO term0 s) =
        written s @
        (if initialized s then [] else [term0\<lparr>c_lflag := c_lflag term0 AND NOT ICANON\<rparr>]) \<and>
      stdin_file (enableIO term0 s) = stdin_file s \<and>
      stdin_file (disableIO s) = stdin_file s \<and>
      pending (flush s) = pending s) \<and>
   (stdin_file s = Closed \<or> stdin_file s = Device \<or> stdin_file s = HungUp \<longrightarrow>
      fst (kbhit n0 s) = n0) \<and>
   (stdin_file s = Closed \<or> stdin_file s = HungUp \<or>
    (stdin_file s = Stream \<or> stdin_file s = Device) \<and> pending s = [] \<and> eof s \<longrightarrow>
      getch sg buf0 s = Some (char_to_int sg buf0, called Read s))"
proof -
  have g1: "enableIO_on (\<lambda>buf st. with_result r1 (get_attr buf st))
       (\<lambda>t st. with_result r2 (set_attr t st)) term0 s
     = enableIO_on get_attr set_attr term0 s"
    by (simp add: enableIO_on_def with_result_def split_def Let_def)
  have g2: "disableIO_on (\<lambda>t st. with_result r2 (set_attr t st)) s = disableIO_on set_attr s"
    by (simp add: disableIO_on_def with_result_def split_def Let_def)
  have g3: "kbhit_on (\<lambda>n st. with_result r3 (fionread n st)) n0 s = kbhit_on fionread n0 s"
    by (simp add: kbhit_on_def with_result_def split_def Let_def)
  have g4: "flush_on (\<lambda>a st. with_result r4 (tcflsh a st)) s = flush_on tcflsh s"
    by (simp add: flush_on_def with_result_def split_def Let_def)
  have g5: "getch_on (\<lambda>b st. map_option (with_result r5) (read_one b st)) sg buf0 s
     = getch_on read_one sg buf0 s"
    by (cases "read_one buf0 s") (simp_all add: getch_on_def with_result_def split_def)
  have r: "case read1 buf0 s of
      None \<Rightarrow> getch sg buf0 s = None \<and> pending s = [] \<and> \<not> nonblocking s
    | Some (r, b, s1) \<Rightarrow>
        getch sg buf0 s = Some (char_to_int sg (if r = 1 then b else buf0), s1) \<and>
        calls s1 = calls s @ [Read]"
  proof (cases "read1 buf0 s")
    case None
    then show ?thesis using read1_blocks [OF None] by (simp add: getch_read1)
  next
    case (Some x)
    obtain r b s1 where x: "x = (r, b, s1)" by (cases x) auto
    show ?thesis
      using read1_calls [of buf0 s r b s1] Some x by (simp add: getch_read1)
  qed
  have n: "tty_attrs s = None \<longrightarrow>
      term_backup (enableIO term0 s) = (if initialized s then term_backup s else term0) \<and>
      written (enableIO term0 s) =
        written s @
        (if initialized s then [] else [term0\<lparr>c_lflag := c_lflag term0 AND NOT ICANON\<rparr>]) \<and>
      stdin_file (enableIO term0 s) = stdin_file s \<and>
      stdin_file (disableIO s) = stdin_file s \<and>
      pending (flush s) = pending s"
    by (auto simp: tty_attrs_def enableIO_term_backup enableIO_written enableIO_stdin_file
        disableIO_stdin_file flush_other called_def split: descriptor.splits)
  have k: "stdin_file s = Closed \<or> stdin_file s = Device \<or> stdin_file s = HungUp \<longrightarrow>
      fst (kbhit n0 s) = n0"
    by (auto simp: kbhit_value)
  have e: "stdin_file s = Closed \<or> stdin_file s = HungUp \<or>
    (stdin_file s = Stream \<or> stdin_file s = Device) \<and> pending s = [] \<and> eof s \<longrightarrow>
      getch sg buf0 s = Some (char_to_int sg buf0, called Read s)"
    using getch_stale [of s sg buf0] by blast
  have c: "calls (enableIO term0 s) =
       calls s @ (if initialized s then [] else [Tcgetattr, Tcsetattr]) @ [Setbuf] \<and>
     initialized (enableIO term0 s) \<and>
     calls (disableIO s) = calls s @ [Setlinebuf, Tcsetattr] \<and>
     written (disableIO s) = written s @ [term_backup s] \<and>
     calls (snd (kbhit n0 s)) = calls s @ [Ioctl_FIONREAD] \<and>
     calls (flush s) = calls s @ [Ioctl_TCFLSH]"
    by (simp add: enableIO_calls enableIO_initialized disableIO_calls disableIO_written
        kbhit_state called_def flush_calls)
  show ?thesis
    using g1 g2 g3 g4 g5 c r n k e by (intro conjI) blast+
qed

theorem C9_outcomes_ignored_witness:
  "tty_attrs (process_start Closed [] False FullyBuffered) = None \<and>
   calls (enableIO cooked (process_start Closed [] False FullyBuffered))
     = [Tcgetattr, Tcsetattr, Setbuf] \<and>
   initialized (enableIO cooked (process_start Closed [] False FullyBuffered)) \<and>
   term_backup (enableIO cooked (process_start Closed [] False FullyBuffered)) = cooked \<and>
   written (enableIO cooked (process_start Closed [] False FullyBuffered))
     = [cooked\<lparr>c_lflag := 0x8A39\<rparr>] \<and>
   fst (kbhit 7 (process_start Closed [] False FullyBuffered)) = 7 \<and>
   map_option fst (getch True 65 (process_start Closed [] False FullyBuffered)) = Some 65 \<and>
   map_option fst (getch True 65 (process_start Stream [] True FullyBuffered)) = Some 65"
  using
    C9_outcomes_ignored [where s = "process_start Closed [] False FullyBuffered"
      and ?term0.0 = cooked and ?n0.0 = 7 and sg = True and ?buf0.0 = 65
      and get_attr = tcgetattr and set_attr = tcsetattr and fionread = ioctl_FIONREAD
      and tcflsh = ioctl_TCFLSH and read_one = read1 and ?r1.0 = 0 and ?r2.0 = 0
      and ?r3.0 = 0 and ?r4.0 = 0 and ?r5.0 = 0]
    C9_outcomes_ignored [where s = "process_start Stream [] True FullyBuffered"
      and ?term0.0 = cooked and ?n0.0 = 7 and sg = True and ?buf0.0 = 65
      and get_attr = tcgetattr and set_attr = tcsetattr and fionread = ioctl_FIONREAD
      and tcflsh = ioctl_TCFLSH and read_one = read1 and ?r1.0 = 0 and ?r2.0 = 0
      and ?r3.0 = 0 and ?r4.0 = 0 and ?r5.0 = 0]
  by (simp add: process_start_def char_to_int_def tty_attrs_def ICANON_def cooked_def)

text \<open>
  C10. In a process that has not called \<open>enableIO\<close> yet, on a terminal with attribute set
  \<open>t\<close>: after \<open>enableIO\<close> the terminal's input, output and control modes, line discipline,
  control characters and speeds are those of \<open>t\<close>, and its local modes are those of \<open>t\<close>
  with the \<^verbatim>\<open>ICANON\<close> bit (bit 1) cleared: every other bit, \<^verbatim>\<open>ECHO\<close> among them, is as it
  was.
\<close>

theorem C10_only_ICANON:
  assumes "\<not> initialized s" and "stdin_file s = Terminal t"
  shows "case stdin_file (enableIO term0 s) of
           Terminal t' \<Rightarrow>
             c_iflag t' = c_iflag t \<and> c_oflag t' = c_oflag t \<and> c_cflag t' = c_cflag t \<and>
             c_line t' = c_line t \<and> c_cc t' = c_cc t \<and>
             c_ispeed t' = c_ispeed t \<and> c_ospeed t' = c_ospeed t \<and>
             c_lflag t' = c_lflag t AND NOT ICANON \<and>
             (\<forall>n. bit (c_lflag t') n = (bit (c_lflag t) n \<and> n \<noteq> 1)) \<and>
             c_lflag t' AND ECHO = c_lflag t AND ECHO
         | _ \<Rightarrow> False"
  using assms by (simp add: enableIO_stdin_file bit_clear_ICANON clear_ICANON_keeps_ECHO)

theorem C10_only_ICANON_witness:
  "\<not> initialized demo \<and> stdin_file demo = Terminal cooked \<and>
   stdin_file (enableIO zero_termios demo) = Terminal (cooked\<lparr>c_lflag := 0x8A39\<rparr>)"
  using C10_only_ICANON [of demo cooked zero_termios]
  by (simp add: demo_def process_start_def enableIO_stdin_file ICANON_def cooked_def)

end
